theory Spec2Isabelle
  imports Main
begin

section \<open>Conventions\<close>

text \<open>
  Timestamps are integers counting milliseconds (what \<open>Date.now()\<close> returns; the SQL
  \<open>NOW()\<close> is read on the same scale). A JavaScript value that may be \<open>null\<close> or
  \<open>undefined\<close>, and an SQL column that may be \<open>NULL\<close>, is an \<open>option\<close>.
  Characters outside ASCII in the source's string literals are written by their code
  unit: \<open>CHR 0xE1\<close> is a-acute, \<open>CHR 0xE3\<close> is a-tilde, \<open>CHR 0xED\<close> is i-acute.

  The SQL statements are tagged templates of \<open>$queryRaw\<close> and \<open>$executeRaw\<close> on the
  Prisma client, so every \<open>${...}\<close> of a template is sent as a bind parameter. Where a
  template writes a \<open>${...}\<close> inside a quoted literal, as in
  \<open>INTERVAL '${n} minutes'\<close>, the server is given a literal it cannot read and a
  parameter it cannot place, and it rejects the statement, on every call. The row a raw
  query returns is keyed by the names of the columns (\<open>data_envio\<close>,
  \<open>processando_desde\<close>), whatever type the query is given. \<open>ON CONFLICT
  (consulta_id)\<close> rests on the uniqueness of that column. Whatever is thrown is an
  \<open>Error\<close> object.
\<close>

text \<open>The JavaScript \<open>a || d\<close> on an optional string: \<open>null\<close>, \<open>undefined\<close> and the
  empty string are falsy.\<close>

definition ou :: "string option \<Rightarrow> string \<Rightarrow> string" where
  "ou a d = (case a of None \<Rightarrow> d | Some s \<Rightarrow> if s = [] then d else s)"

text \<open>The same operator where the fallback may itself be undefined.\<close>

definition ouOpt :: "string option \<Rightarrow> string option \<Rightarrow> string option" where
  "ouOpt a d = (case a of None \<Rightarrow> d | Some s \<Rightarrow> if s = [] then d else Some s)"

text \<open>\<open>a || false\<close> on an optional boolean.\<close>

definition ouFalse :: "bool option \<Rightarrow> bool" where
  "ouFalse a = (case a of None \<Rightarrow> False | Some b \<Rightarrow> b)"

text \<open>Decimal rendering of an integer inside a template string.\<close>

function decimal :: "nat \<Rightarrow> string" where
  "decimal n = (if n < 10 then [''0123456789'' ! n]
                else decimal (n div 10) @ [''0123456789'' ! (n mod 10)])"
  by pat_completeness auto
termination
  by (relation "measure id") auto

declare decimal.simps [simp del]

definition numero :: "int \<Rightarrow> string" where
  "numero i = (if i < 0 then CHR ''-'' # decimal (nat (- i)) else decimal (nat i))"

section \<open>Types of \<open>stt.types\<close>\<close>

record Cid =
  codigo :: string
  descricao :: string
  principal :: bool

record STTPayload =
  pl_status :: string
  pl_tipoAtendimentoMedico :: string
  pl_prioridade :: string
  pl_queixaDuracao :: string
  pl_tipoQueixa :: string
  pl_historiaPregressaMolestiaAtual :: string
  pl_antecedentesPessoais :: string
  pl_detalharDiagnostico :: string
  pl_hipoteseDiagnostica :: string
  pl_cids :: "Cid list"
  pl_conduta :: string
  pl_atestado :: bool
  pl_prescricao :: bool
  pl_solicitaoExames :: bool
  pl_desfecho :: string
  pl_casoId :: "string option"
  pl_dataInicioAtendimento :: "string option"
  pl_dataFimAtendimento :: string
  pl_pdf :: string
  pl_crm :: string

text \<open>
  \<open>pl_casoId\<close> is optional because \<open>buildPayloadFromPrisma\<close> returns \<open>any\<close> and can leave
  the property \<open>undefined\<close>; \<open>buildPayload\<close> always fills it.

  The control row \<open>STTEnvioControle\<close>, one per \<open>consulta_id\<close>. The columns \<open>id\<close> (a random
  uuid), \<open>pacienteCpfHash\<close>, \<open>dataConsulta\<close> and \<open>dataFinalizacaoEvolucao\<close> are never read
  or written by the services and are left out. \<open>payloadEnviado\<close> holds the payload whose
  JSON text the source stores.
\<close>

record STTEnvioControle =
  consultaId :: string
  voucher :: string
  codigoInternoStt :: "string option"
  enviado :: bool
  dataEnvio :: "int option"
  tentativas :: int
  ultimaTentativa :: "int option"
  proximoRetry :: "int option"
  processandoDesde :: "int option"
  respostaStatusCode :: "int option"
  respostaBody :: "string option"
  respostaHeaders :: "string option"
  respostaErro :: "string option"
  pacienteNome :: "string option"
  profissionalNome :: "string option"
  profissionalRegistro :: "string option"
  payloadEnviado :: "STTPayload option"
  createdAt :: int
  updatedAt :: int

type_synonym controles = "STTEnvioControle list"

text \<open>A thrown \<open>Error\<close>: its message and, for a transport error, \<open>error.response?.status\<close>.\<close>

record Erro =
  message :: string
  responseStatus :: "int option"

definition novoErro :: "string \<Rightarrow> Erro" where
  "novoErro m = \<lparr>message = m, responseStatus = None\<rparr>"

section \<open>\<open>STTDeduplicationService\<close>\<close>

text \<open>
  Every operation of the service is one or two SQL statements. Each takes the lock
  timeout of the configuration (in minutes), the instant \<open>now\<close> its statements read, and
  \<open>falha\<close>: \<open>Some m\<close> when the statement fails with message \<open>m\<close> (the store is down), so that
  each \<open>catch\<close> block of the source is a branch here.

  \<open>executarRaw\<close> is the run of one raw statement whose text would yield \<open>resultado\<close>:
  \<open>emLiteral\<close> says that the template writes a parameter inside a quoted literal, and
  \<open>rej\<close> is the message of the error the server then answers with.
\<close>

definition executarRaw :: "bool \<Rightarrow> string \<Rightarrow> string option \<Rightarrow> 'a \<Rightarrow> Erro + 'a" where
  "executarRaw emLiteral rej falha resultado =
     (case falha of
        Some m \<Rightarrow> Inl (novoErro m)
      | None \<Rightarrow> if emLiteral then Inl (novoErro rej) else Inr resultado)"

text \<open>
  The timestamp properties of a row as \<open>SELECT *\<close> returns it through \<open>$queryRaw\<close>: one
  per column, under the column's name. Reading a property gives \<open>None\<close> when the row has
  no such key (\<open>undefined\<close>), \<open>Some None\<close> for \<open>null\<close>.
\<close>

definition propriedadesDeData :: "STTEnvioControle \<Rightarrow> (string \<times> int option) list" where
  "propriedadesDeData r =
     [(''data_envio'', dataEnvio r), (''ultima_tentativa'', ultimaTentativa r),
      (''proximo_retry'', proximoRetry r), (''processando_desde'', processandoDesde r),
      (''created_at'', Some (createdAt r)), (''updated_at'', Some (updatedAt r))]"

definition propriedade :: "STTEnvioControle \<Rightarrow> string \<Rightarrow> int option option" where
  "propriedade r nome = map_of (propriedadesDeData r) nome"

definition minutos :: "int \<Rightarrow> int" where
  "minutos m = m * 60 * 1000"

text \<open>First query of \<open>canSendToSTT\<close>: delivered with status 200.\<close>

definition jaEnviado :: "string \<Rightarrow> STTEnvioControle \<Rightarrow> bool" where
  "jaEnviado cid r \<longleftrightarrow> consultaId r = cid \<and> enviado r \<and> respostaStatusCode r = Some 200"

text \<open>Second query: \<open>processando_desde\<close> set and younger than the lock timeout.\<close>

definition emProcessamento :: "int \<Rightarrow> int \<Rightarrow> string \<Rightarrow> STTEnvioControle \<Rightarrow> bool" where
  "emProcessamento lockMin now cid r \<longleftrightarrow>
     consultaId r = cid \<and>
     (case processandoDesde r of None \<Rightarrow> False | Some t \<Rightarrow> t > now - minutos lockMin)"

text \<open>
  The reason of a delivered record reads \<open>controle[0].dataEnvio\<close>, and formats it when it
  is truthy.
\<close>

definition motivoEnviado :: "(int \<Rightarrow> string) \<Rightarrow> STTEnvioControle \<Rightarrow> string" where
  "motivoEnviado toLocale r =
     (CHR ''J'' # CHR 0xE1 # '' enviado com sucesso em '') @
     (case propriedade r ''dataEnvio'' of
        Some (Some t) \<Rightarrow> toLocale t
      | _ \<Rightarrow> ''data desconhecida'')"

text \<open>
  The reason of a record in progress reads \<open>emProcessamento[0].processandoDesde\<close>;
  \<open>new Date(undefined).getTime()\<close> is \<open>NaN\<close>, \<open>new Date(null).getTime()\<close> is 0.
\<close>

definition motivoProcessando :: "int \<Rightarrow> STTEnvioControle \<Rightarrow> string" where
  "motivoProcessando now r =
     ''Em processamento h'' @ [CHR 0xE1] @ '' '' @
     (case propriedade r ''processandoDesde'' of
        None \<Rightarrow> ''NaN''
      | Some None \<Rightarrow> numero (now div 1000)
      | Some (Some t) \<Rightarrow> numero ((now - t) div 1000)) @ ''s''"

text \<open>
  The first query has its one parameter outside any literal; the second writes
  \<open>lockTimeoutMinutes\<close> inside \<open>INTERVAL '...'\<close>. The \<open>catch\<close> rethrows.
\<close>

definition canSendToSTT ::
  "(int \<Rightarrow> string) \<Rightarrow> int \<Rightarrow> string \<Rightarrow> int \<Rightarrow> string option \<Rightarrow> controles \<Rightarrow> string
     \<Rightarrow> Erro + (bool \<times> string option)" where
  "canSendToSTT toLocale lockMin rej now falha tbl cid =
     (case executarRaw False rej falha (find (jaEnviado cid) tbl) of
        Inl e \<Rightarrow> Inl e
      | Inr (Some r) \<Rightarrow> Inr (False, Some (motivoEnviado toLocale r))
      | Inr None \<Rightarrow>
         (case executarRaw True rej falha (find (emProcessamento lockMin now cid) tbl) of
            Inl e \<Rightarrow> Inl e
          | Inr (Some r) \<Rightarrow> Inr (False, Some (motivoProcessando now r))
          | Inr None \<Rightarrow> Inr (True, None)))"

text \<open>The row \<open>acquireLock\<close> inserts when no row of the record exists.\<close>

definition novoControle :: "int \<Rightarrow> string \<Rightarrow> string \<Rightarrow> STTEnvioControle" where
  "novoControle now cid v =
     \<lparr>consultaId = cid, voucher = v, codigoInternoStt = None, enviado = False,
      dataEnvio = None, tentativas = 1, ultimaTentativa = Some now, proximoRetry = None,
      processandoDesde = Some now, respostaStatusCode = None, respostaBody = None,
      respostaHeaders = None, respostaErro = None, pacienteNome = None,
      profissionalNome = None, profissionalRegistro = None, payloadEnviado = None,
      createdAt = now, updatedAt = now\<rparr>"

text \<open>The \<open>WHERE\<close> of the \<open>ON CONFLICT ... DO UPDATE\<close>: not delivered with status 200.\<close>

definition conflitoAtualizavel :: "STTEnvioControle \<Rightarrow> bool" where
  "conflitoAtualizavel r \<longleftrightarrow> enviado r = False \<or> respostaStatusCode r \<noteq> Some 200"

text \<open>Its \<open>SET\<close>: the \<open>CASE\<close> keeps a live \<open>processando_desde\<close> of an undelivered row.\<close>

definition atualizarConflito :: "int \<Rightarrow> int \<Rightarrow> STTEnvioControle \<Rightarrow> STTEnvioControle" where
  "atualizarConflito lockMin now r =
     r\<lparr>tentativas := tentativas r + 1,
       ultimaTentativa := Some now,
       processandoDesde :=
         (if processandoDesde r = None
             \<or> (case processandoDesde r of None \<Rightarrow> False | Some t \<Rightarrow> t < now - minutos lockMin)
             \<or> enviado r
          then Some now else processandoDesde r),
       updatedAt := now\<rparr>"

text \<open>What the text of the statement says: the new table and the number of rows
  affected.\<close>

definition upsertLock :: "int \<Rightarrow> int \<Rightarrow> controles \<Rightarrow> string \<Rightarrow> string \<Rightarrow> nat \<times> controles" where
  "upsertLock lockMin now tbl cid v =
     (if \<not> (\<exists>r \<in> set tbl. consultaId r = cid) then (1, tbl @ [novoControle now cid v])
      else (length (filter (\<lambda>r. consultaId r = cid \<and> conflitoAtualizavel r) tbl),
            map (\<lambda>r. if consultaId r = cid \<and> conflitoAtualizavel r
                      then atualizarConflito lockMin now r else r) tbl))"

text \<open>
  The statement writes \<open>lockTimeoutMinutes\<close> inside \<open>INTERVAL '...'\<close> in the \<open>CASE\<close>;
  the \<open>catch\<close> returns false.
\<close>

definition acquireLock ::
  "int \<Rightarrow> string \<Rightarrow> int \<Rightarrow> string option \<Rightarrow> controles \<Rightarrow> string \<Rightarrow> string
     \<Rightarrow> bool \<times> controles" where
  "acquireLock lockMin rej now falha tbl cid v =
     (case executarRaw True rej falha (upsertLock lockMin now tbl cid v) of
        Inl e \<Rightarrow> (False, tbl)
      | Inr (result, tbl') \<Rightarrow> (result > 0, tbl'))"

text \<open>No parameter of \<open>releaseLock\<close> is inside a literal; the \<open>catch\<close> swallows the error.\<close>

definition releaseLock :: "int \<Rightarrow> string option \<Rightarrow> controles \<Rightarrow> string \<Rightarrow> controles" where
  "releaseLock now falha tbl cid =
     (case falha of
        Some m \<Rightarrow> tbl
      | None \<Rightarrow> map (\<lambda>r. if consultaId r = cid
                           then r\<lparr>processandoDesde := None, updatedAt := now\<rparr> else r) tbl)"

definition travado :: "int \<Rightarrow> int \<Rightarrow> STTEnvioControle \<Rightarrow> bool" where
  "travado lockMin now r \<longleftrightarrow>
     (case processandoDesde r of None \<Rightarrow> False | Some t \<Rightarrow> t < now - minutos (lockMin * 2))
     \<and> enviado r = False"

text \<open>
  The statement writes \<open>lockTimeoutMinutes * 2\<close> inside \<open>INTERVAL '...'\<close>; the \<open>catch\<close>
  returns 0.
\<close>

definition cleanupStuckLocks ::
  "int \<Rightarrow> string \<Rightarrow> int \<Rightarrow> string option \<Rightarrow> controles \<Rightarrow> nat \<times> controles" where
  "cleanupStuckLocks lockMin rej now falha tbl =
     (case executarRaw True rej falha
             (length (filter (travado lockMin now) tbl),
              map (\<lambda>r. if travado lockMin now r
                        then r\<lparr>processandoDesde := None, updatedAt := now\<rparr> else r) tbl) of
        Inl e \<Rightarrow> (0, tbl)
      | Inr res \<Rightarrow> res)"

section \<open>The source record and the environment of \<open>STTSendService\<close>\<close>

record Evolucao =
  ev_status :: "string option"
  ev_tipoAtendimentoMedico :: "string option"
  ev_queixaDuracao :: "string option"
  ev_tipoQueixa :: "string option"
  ev_historiaProgressa :: "string option"
  ev_antecedentePessoal :: "bool option"
  ev_antecedentePessoalDetalhes :: "string option"
  ev_diagnosticoDetalhado :: "string option"
  ev_hipoteseDiagnostica :: "string option"
  ev_conduta :: "string option"
  ev_atestado :: "bool option"
  ev_prescricao :: "bool option"
  ev_solicitacaoExames :: "bool option"
  ev_desfecho :: "string option"
  ev_cids :: "Cid list option"

record AgendamentoStt =
  ag_codigoInterno :: string
  ag_origem :: "string option"

record ConsultaTempo =
  atendimentoIniciadoEm :: "int option"
  atendimentoFinalizadoEm :: "int option"
  profissionalAcessouEm :: "int option"

record Paciente =
  pa_nome :: string
  pa_cpf :: "string option"

record Usuario =
  us_name :: string

record Profissional =
  pf_registro :: "string option"
  pf_user :: "Usuario option"

record ConsultaCompleta =
  cc_id :: string
  cc_voucher :: string
  cc_status :: string
  cc_dataRealizada :: "int option"
  cc_evolucao :: "Evolucao option"
  cc_agendamentoStt :: "AgendamentoStt option"
  cc_consultaTempo :: "ConsultaTempo option"
  cc_paciente :: "Paciente option"
  cc_profissional :: "Profissional option"

text \<open>The row that the joined \<open>SELECT\<close> of \<open>buscarDadosConsulta\<close> returns, column by column.\<close>

record LinhaConsulta =
  l_id :: string
  l_voucher :: string
  l_status :: string
  l_dataRealizada :: "int option"
  evolucao_status :: "string option"
  evolucao_tipo_atendimento :: "string option"
  evolucao_queixa_duracao :: "string option"
  evolucao_tipo_queixa :: "string option"
  evolucao_historia :: "string option"
  evolucao_antecedente :: "bool option"
  evolucao_antecedente_detalhes :: "string option"
  evolucao_diagnostico :: "string option"
  evolucao_hipotese :: "string option"
  evolucao_conduta :: "string option"
  evolucao_atestado :: "bool option"
  evolucao_prescricao :: "bool option"
  evolucao_exames :: "bool option"
  evolucao_desfecho :: "string option"
  stt_codigo :: "string option"
  stt_origem :: "string option"
  tempo_inicio :: "int option"
  tempo_fim :: "int option"
  tempo_acesso :: "int option"
  paciente_nome :: "string option"
  paciente_cpf :: "string option"
  profissional_registro :: "string option"
  profissional_nome :: "string option"

text \<open>
  An HTTP response as the service reads it: \<open>status\<close>, the JSON text of \<open>data\<close> and of
  \<open>headers\<close>, \<open>data?.error\<close> and \<open>statusText\<close>. What \<open>axios.post\<close> does is one of: a
  response, an axios error (with the response received, if any), another exception.
\<close>

record HttpResponse =
  rs_status :: int
  rs_data :: string
  rs_dataError :: "string option"
  rs_statusText :: "string option"
  rs_headers :: string

datatype AxiosOutcome =
  Resposta HttpResponse
| AxiosErro string "HttpResponse option"
| OutroErro string

text \<open>
  What the service is given: the configuration (\<open>config.timeouts.lockTimeoutMinutes\<close>,
  \<open>config.stt.modoTeste\<close>), the library functions (\<open>toLocaleString('pt-BR')\<close>, and
  \<open>format(utcToZonedTime(t, tz), ..., {timeZone: tz})\<close> with \<open>tz\<close> the fixed
  \<open>America/Sao_Paulo\<close>), the source store (the joined row of a record and its CID rows),
  the PDF generator (which returns the empty string when it fails), the transport, the
  JSON text of the simulated body of test mode, and the message with which the server
  rejects a statement it cannot read.
\<close>

record Ambiente =
  lockTimeoutMinutes :: int
  modoTeste :: bool
  toLocaleString :: "int \<Rightarrow> string"
  formatTz :: "int \<Rightarrow> string"
  queryConsulta :: "string \<Rightarrow> LinhaConsulta option"
  queryCids :: "string \<Rightarrow> Cid list"
  gerarPdfEvolucao :: "string \<Rightarrow> string"
  axiosPost :: "STTPayload \<Rightarrow> AxiosOutcome"
  jsonSimulated :: "int \<Rightarrow> string"
  rejeicao :: string

text \<open>
  The points of one \<open>sendToSTT\<close> invocation where the clock is read or a statement can
  fail, and the oracle that says, for one invocation, which instant is read at each point
  and whether the step there fails (and with which message). The clock readings inside
  one step coincide.
\<close>

datatype Ponto =
  PCheck | PLock | PRecheck | PFetch | PReleaseNotFound | PBuild | PRecord | PErro | PRelease

record Oraculo =
  agoraEm :: "Ponto \<Rightarrow> int"
  falhaEm :: "Ponto \<Rightarrow> string option"

text \<open>The control table and the trace of lock calls and outbound requests.\<close>

datatype Evento = EvAcquire string | EvRelease string | EvPost STTPayload

record Mundo =
  tabela :: controles
  eventos :: "Evento list"

datatype SendStatus = SENT | BLOCKED | LOCK_FAILED | ERROR | DRY_RUN

record SendResult =
  sr_success :: bool
  sr_status :: SendStatus
  sr_reason :: "string option"
  sr_httpStatus :: "int option"
  sr_response :: "string option"

section \<open>\<open>STTSendService\<close>\<close>

definition truthy :: "string option \<Rightarrow> bool" where
  "truthy a \<longleftrightarrow> (case a of None \<Rightarrow> False | Some s \<Rightarrow> s \<noteq> [])"

definition buscarDadosConsulta :: "Ambiente \<Rightarrow> string option \<Rightarrow> string \<Rightarrow> ConsultaCompleta option" where
  "buscarDadosConsulta env falha cid =
     (case falha of
        Some m \<Rightarrow> None
      | None \<Rightarrow>
         (case queryConsulta env cid of
            None \<Rightarrow> None
          | Some d \<Rightarrow>
             Some \<lparr>cc_id = l_id d, cc_voucher = l_voucher d, cc_status = l_status d,
                   cc_dataRealizada = l_dataRealizada d,
                   cc_evolucao =
                     (if truthy (evolucao_status d) then
                        Some \<lparr>ev_status = evolucao_status d,
                              ev_tipoAtendimentoMedico = evolucao_tipo_atendimento d,
                              ev_queixaDuracao = evolucao_queixa_duracao d,
                              ev_tipoQueixa = evolucao_tipo_queixa d,
                              ev_historiaProgressa = evolucao_historia d,
                              ev_antecedentePessoal = evolucao_antecedente d,
                              ev_antecedentePessoalDetalhes = evolucao_antecedente_detalhes d,
                              ev_diagnosticoDetalhado = evolucao_diagnostico d,
                              ev_hipoteseDiagnostica = evolucao_hipotese d,
                              ev_conduta = evolucao_conduta d,
                              ev_atestado = evolucao_atestado d,
                              ev_prescricao = evolucao_prescricao d,
                              ev_solicitacaoExames = evolucao_exames d,
                              ev_desfecho = evolucao_desfecho d,
                              ev_cids = Some (queryCids env cid)\<rparr>
                      else None),
                   cc_agendamentoStt =
                     (if truthy (stt_codigo d)
                      then Some \<lparr>ag_codigoInterno = ou (stt_codigo d) [], ag_origem = stt_origem d\<rparr>
                      else None),
                   cc_consultaTempo =
                     Some \<lparr>atendimentoIniciadoEm = tempo_inicio d,
                           atendimentoFinalizadoEm = tempo_fim d,
                           profissionalAcessouEm = tempo_acesso d\<rparr>,
                   cc_paciente =
                     (if truthy (paciente_nome d)
                      then Some \<lparr>pa_nome = ou (paciente_nome d) [], pa_cpf = paciente_cpf d\<rparr>
                      else None),
                   cc_profissional =
                     Some \<lparr>pf_registro = profissional_registro d,
                           pf_user =
                             (if truthy (profissional_nome d)
                              then Some \<lparr>us_name = ou (profissional_nome d) []\<rparr>
                              else None)\<rparr>\<rparr>))"

text \<open>\<open>consulta.evolucao?.f\<close> and \<open>consulta.consultaTempo?.f\<close>.\<close>

definition daEvolucao :: "ConsultaCompleta \<Rightarrow> (Evolucao \<Rightarrow> 'a option) \<Rightarrow> 'a option" where
  "daEvolucao c f = (case cc_evolucao c of None \<Rightarrow> None | Some e \<Rightarrow> f e)"

definition doTempo :: "ConsultaCompleta \<Rightarrow> (ConsultaTempo \<Rightarrow> int option) \<Rightarrow> int option" where
  "doTempo c f = (case cc_consultaTempo c of None \<Rightarrow> None | Some t \<Rightarrow> f t)"

definition registroProfissional :: "ConsultaCompleta \<Rightarrow> string option" where
  "registroProfissional c = (case cc_profissional c of None \<Rightarrow> None | Some p \<Rightarrow> pf_registro p)"

definition nomeProfissional :: "ConsultaCompleta \<Rightarrow> string option" where
  "nomeProfissional c =
     (case cc_profissional c of
        None \<Rightarrow> None
      | Some p \<Rightarrow> (case pf_user p of None \<Rightarrow> None | Some u \<Rightarrow> Some (us_name u)))"

definition codigoInternoDe :: "ConsultaCompleta \<Rightarrow> string option" where
  "codigoInternoDe c = map_option ag_codigoInterno (cc_agendamentoStt c)"

definition antecedentes :: "ConsultaCompleta \<Rightarrow> string" where
  "antecedentes c =
     (if ouFalse (daEvolucao c ev_antecedentePessoal)
      then ou (daEvolucao c ev_antecedentePessoalDetalhes) ''Sim''
      else [CHR ''N'', CHR 0xE3, CHR ''o''])"

definition dataInicio :: "Ambiente \<Rightarrow> ConsultaCompleta \<Rightarrow> string option" where
  "dataInicio env c =
     (case doTempo c atendimentoIniciadoEm of
        Some t \<Rightarrow> Some (formatTz env t)
      | None \<Rightarrow>
         (case doTempo c profissionalAcessouEm of
            Some t \<Rightarrow> Some (formatTz env t)
          | None \<Rightarrow> None))"

definition dataFim :: "Ambiente \<Rightarrow> int \<Rightarrow> ConsultaCompleta \<Rightarrow> string" where
  "dataFim env now c =
     (case doTempo c atendimentoFinalizadoEm of
        Some t \<Rightarrow> formatTz env t
      | None \<Rightarrow> formatTz env now)"

text \<open>\<open>buildPayloadFromPrisma\<close>, the builder of the preview endpoint; \<open>now\<close> is what
  \<open>new Date()\<close> returns.\<close>

definition buildPayloadFromPrisma :: "Ambiente \<Rightarrow> int \<Rightarrow> ConsultaCompleta \<Rightarrow> STTPayload" where
  "buildPayloadFromPrisma env now consulta =
     \<lparr>pl_status = ou (daEvolucao consulta ev_status) ''Efetivo'',
      pl_tipoAtendimentoMedico = ou (daEvolucao consulta ev_tipoAtendimentoMedico) ''OMV'',
      pl_prioridade = ''Normal'',
      pl_queixaDuracao = ou (daEvolucao consulta ev_queixaDuracao) [],
      pl_tipoQueixa = ou (daEvolucao consulta ev_tipoQueixa) [],
      pl_historiaPregressaMolestiaAtual = ou (daEvolucao consulta ev_historiaProgressa) [],
      pl_antecedentesPessoais = antecedentes consulta,
      pl_detalharDiagnostico = ou (daEvolucao consulta ev_diagnosticoDetalhado) [],
      pl_hipoteseDiagnostica = ou (daEvolucao consulta ev_hipoteseDiagnostica) [],
      pl_cids =
        (case daEvolucao consulta ev_cids of
           None \<Rightarrow> []
         | Some cs \<Rightarrow>
            map (\<lambda>cid. \<lparr>codigo = codigo cid, descricao = descricao cid,
                         principal = principal cid\<rparr>) cs),
      pl_conduta = ou (daEvolucao consulta ev_conduta) [],
      pl_atestado = ouFalse (daEvolucao consulta ev_atestado),
      pl_prescricao = ouFalse (daEvolucao consulta ev_prescricao),
      pl_solicitaoExames = ouFalse (daEvolucao consulta ev_solicitacaoExames),
      pl_desfecho = ou (daEvolucao consulta ev_desfecho) [],
      pl_casoId = codigoInternoDe consulta,
      pl_dataInicioAtendimento = dataInicio env consulta,
      pl_dataFimAtendimento = dataFim env now consulta,
      pl_pdf = gerarPdfEvolucao env (cc_voucher consulta),
      pl_crm = ou (registroProfissional consulta) []\<rparr>"

text \<open>\<open>buildPayload\<close>, the builder of the send pipeline.\<close>

definition buildPayload :: "Ambiente \<Rightarrow> int \<Rightarrow> ConsultaCompleta \<Rightarrow> STTPayload" where
  "buildPayload env now consulta =
     \<lparr>pl_status = ou (daEvolucao consulta ev_status) ''Efetivo'',
      pl_tipoAtendimentoMedico = ou (daEvolucao consulta ev_tipoAtendimentoMedico) ''OMV'',
      pl_prioridade = ''Normal'',
      pl_queixaDuracao = ou (daEvolucao consulta ev_queixaDuracao) [],
      pl_tipoQueixa = ou (daEvolucao consulta ev_tipoQueixa) [],
      pl_historiaPregressaMolestiaAtual = ou (daEvolucao consulta ev_historiaProgressa) [],
      pl_antecedentesPessoais = antecedentes consulta,
      pl_detalharDiagnostico = ou (daEvolucao consulta ev_diagnosticoDetalhado) [],
      pl_hipoteseDiagnostica = ou (daEvolucao consulta ev_hipoteseDiagnostica) [],
      pl_cids = (case daEvolucao consulta ev_cids of None \<Rightarrow> [] | Some cs \<Rightarrow> cs),
      pl_conduta = ou (daEvolucao consulta ev_conduta) [],
      pl_atestado = ouFalse (daEvolucao consulta ev_atestado),
      pl_prescricao = ouFalse (daEvolucao consulta ev_prescricao),
      pl_solicitaoExames = ouFalse (daEvolucao consulta ev_solicitacaoExames),
      pl_desfecho = ou (daEvolucao consulta ev_desfecho) [],
      pl_casoId = Some (ou (codigoInternoDe consulta) []),
      pl_dataInicioAtendimento = dataInicio env consulta,
      pl_dataFimAtendimento = dataFim env now consulta,
      pl_pdf = gerarPdfEvolucao env (cc_voucher consulta),
      pl_crm = ou (registroProfissional consulta) []\<rparr>"

definition enviarHttpRequest :: "Ambiente \<Rightarrow> STTPayload \<Rightarrow> Erro + HttpResponse" where
  "enviarHttpRequest env payload =
     (case axiosPost env payload of
        Resposta r \<Rightarrow> Inr r
      | AxiosErro m (Some r) \<Rightarrow> Inr r
      | AxiosErro m None \<Rightarrow> Inl \<lparr>message = m, responseStatus = None\<rparr>
      | OutroErro m \<Rightarrow> Inl \<lparr>message = m, responseStatus = None\<rparr>)"

definition atualizarResultado ::
  "int \<Rightarrow> string option \<Rightarrow> controles \<Rightarrow> string \<Rightarrow> ConsultaCompleta \<Rightarrow> STTPayload \<Rightarrow> HttpResponse
     \<Rightarrow> Erro + controles" where
  "atualizarResultado now falha tbl cid consulta payload response =
     (let sucesso = (rs_status response = 200) in
      case falha of
        Some m \<Rightarrow> Inl (novoErro m)
      | None \<Rightarrow>
         Inr (map (\<lambda>r. if consultaId r = cid then
                     r\<lparr>enviado := sucesso,
                       dataEnvio := (if sucesso then Some now else None),
                       respostaStatusCode := Some (rs_status response),
                       respostaBody := Some (rs_data response),
                       respostaHeaders := Some (rs_headers response),
                       respostaErro :=
                         (if sucesso then None
                          else ouOpt (rs_dataError response) (rs_statusText response)),
                       payloadEnviado := Some payload,
                       processandoDesde := None,
                       pacienteNome := map_option pa_nome (cc_paciente consulta),
                       profissionalNome := nomeProfissional consulta,
                       profissionalRegistro := registroProfissional consulta,
                       codigoInternoStt := codigoInternoDe consulta,
                       updatedAt := now\<rparr>
                   else r) tbl))"

definition calculateNextRetry :: "int \<Rightarrow> int" where
  "calculateNextRetry now = now + 30 * 60 * 1000"

definition registrarErro :: "int \<Rightarrow> string option \<Rightarrow> controles \<Rightarrow> string \<Rightarrow> Erro \<Rightarrow> controles" where
  "registrarErro now falha tbl cid e =
     (let errorMessage = message e;
          statusCode = (case responseStatus e of
                          None \<Rightarrow> None
                        | Some s \<Rightarrow> if s = 0 then None else Some s)
      in case falha of
           Some m \<Rightarrow> tbl
         | None \<Rightarrow>
            map (\<lambda>r. if consultaId r = cid then
                   r\<lparr>respostaErro := Some errorMessage,
                     respostaStatusCode := statusCode,
                     proximoRetry := Some (calculateNextRetry now),
                     processandoDesde := None,
                     updatedAt := now\<rparr>
                 else r) tbl)"

text \<open>
  \<open>sendToSTT\<close> is a \<open>try\<close> body, a \<open>catch\<close> and a \<open>finally\<close>. The body is
  \<open>corpoSendToSTT\<close>: \<open>Inr\<close> is a \<open>return\<close> inside the \<open>try\<close>, \<open>Inl\<close> an exception that
  reaches the \<open>catch\<close>. The response of test mode is made without any request.
\<close>

definition respostaSimulada :: "Ambiente \<Rightarrow> int \<Rightarrow> HttpResponse" where
  "respostaSimulada env now =
     \<lparr>rs_status = 200, rs_data = jsonSimulated env now, rs_dataError = None,
      rs_statusText = None, rs_headers = ''{\"x-simulated\":\"true\"}''\<rparr>"

definition semSucesso :: "SendStatus \<Rightarrow> string option \<Rightarrow> SendResult" where
  "semSucesso st motivo =
     \<lparr>sr_success = False, sr_status = st, sr_reason = motivo, sr_httpStatus = None,
      sr_response = None\<rparr>"

definition registrar :: "Evento \<Rightarrow> Mundo \<Rightarrow> Mundo" where
  "registrar ev w = w\<lparr>eventos := eventos w @ [ev]\<rparr>"

text \<open>Steps 4 to 6 of the body, once the lock is held (world \<open>w1\<close>) and the record is
  fetched: build, dispatch (or simulate), record.\<close>

definition aposFetch ::
  "Ambiente \<Rightarrow> Oraculo \<Rightarrow> Mundo \<Rightarrow> string \<Rightarrow> ConsultaCompleta \<Rightarrow> (Erro + SendResult) \<times> Mundo" where
  "aposFetch env orc w1 consultaId' consulta =
     (case falhaEm orc PBuild of
        Some m \<Rightarrow> (Inl (novoErro m), w1)
      | None \<Rightarrow>
         (let payload = buildPayload env (agoraEm orc PBuild) consulta;
              (enviado', w2) =
                (if modoTeste env
                 then (Inr (respostaSimulada env (agoraEm orc PBuild)), w1)
                 else (enviarHttpRequest env payload, registrar (EvPost payload) w1))
          in
          case enviado' of
            Inl e \<Rightarrow> (Inl e, w2)
          | Inr response \<Rightarrow>
             (case atualizarResultado (agoraEm orc PRecord) (falhaEm orc PRecord)
                     (tabela w2) consultaId' consulta payload response of
                Inl e \<Rightarrow> (Inl e, w2)
              | Inr tbl3 \<Rightarrow>
                 (Inr \<lparr>sr_success = True, sr_status = SENT, sr_reason = None,
                       sr_httpStatus = Some (rs_status response),
                       sr_response = Some (rs_data response)\<rparr>,
                  w2\<lparr>tabela := tbl3\<rparr>))))"

definition corpoSendToSTT ::
  "Ambiente \<Rightarrow> Oraculo \<Rightarrow> Mundo \<Rightarrow> string \<Rightarrow> string \<Rightarrow> (Erro + SendResult) \<times> Mundo" where
  "corpoSendToSTT env orc w consultaId' voucher' =
     (case canSendToSTT (toLocaleString env) (lockTimeoutMinutes env) (rejeicao env)
             (agoraEm orc PCheck) (falhaEm orc PCheck) (tabela w) consultaId' of
        Inl e \<Rightarrow> (Inl e, w)
      | Inr (canSend, reason) \<Rightarrow>
         if \<not> canSend then (Inr (semSucesso BLOCKED reason), w)
         else
           (let (lockAcquired, tbl1) =
                  acquireLock (lockTimeoutMinutes env) (rejeicao env) (agoraEm orc PLock)
                    (falhaEm orc PLock) (tabela w) consultaId' voucher';
                w1 = registrar (EvAcquire consultaId') (w\<lparr>tabela := tbl1\<rparr>)
            in
            if \<not> lockAcquired then
              (case canSendToSTT (toLocaleString env) (lockTimeoutMinutes env) (rejeicao env)
                      (agoraEm orc PRecheck) (falhaEm orc PRecheck) (tabela w1) consultaId' of
                 Inl e \<Rightarrow> (Inl e, w1)
               | Inr (canSend2, reason2) \<Rightarrow>
                  (Inr (semSucesso LOCK_FAILED
                          (Some (ou reason2
                             (''N'' @ [CHR 0xE3] @ ''o foi poss'' @ [CHR 0xED] @
                              ''vel adquirir lock'')))), w1))
            else
              (case buscarDadosConsulta env (falhaEm orc PFetch) consultaId' of
                 None \<Rightarrow>
                  (Inr (semSucesso ERROR
                          (Some (''Consulta n'' @ [CHR 0xE3] @ ''o encontrada''))),
                   registrar (EvRelease consultaId')
                     (w1\<lparr>tabela := releaseLock (agoraEm orc PReleaseNotFound)
                                      (falhaEm orc PReleaseNotFound) (tabela w1) consultaId'\<rparr>))
               | Some consulta \<Rightarrow> aposFetch env orc w1 consultaId' consulta)))"

definition sendToSTT ::
  "Ambiente \<Rightarrow> Oraculo \<Rightarrow> Mundo \<Rightarrow> string \<Rightarrow> string \<Rightarrow> SendResult \<times> Mundo" where
  "sendToSTT env orc w consultaId' voucher' =
     (let (r, w1) = corpoSendToSTT env orc w consultaId' voucher';
          (res, w2) =
            (case r of
               Inr res \<Rightarrow> (res, w1)
             | Inl e \<Rightarrow>
                (semSucesso ERROR (Some (message e)),
                 w1\<lparr>tabela := registrarErro (agoraEm orc PErro) (falhaEm orc PErro)
                                  (tabela w1) consultaId' e\<rparr>))
      in (res,
          registrar (EvRelease consultaId')
            (w2\<lparr>tabela := releaseLock (agoraEm orc PRelease) (falhaEm orc PRelease)
                             (tabela w2) consultaId'\<rparr>)))"

section \<open>\<open>STTService\<close>: the batch scanner\<close>

text \<open>
  The tables the candidate query joins with the control table: \<open>consultas\<close> (the columns
  the query reads), the \<open>voucher\<close> column of \<open>agendamentos_stt\<close>, and the \<open>consultaId\<close>
  column of \<open>evolucoes\<close>.
\<close>

record Consulta =
  c_id :: string
  c_voucher :: string
  c_status :: string
  c_updatedAt :: int

record Fonte =
  consultas :: "Consulta list"
  agendamentos_stt :: "string list"
  evolucoes :: "string list"

record PendingConsulta =
  pc_consulta_id :: string
  pc_voucher :: string
  pc_updated_at :: int
  pc_tentativas :: int
  pc_ultima_tentativa :: "int option"
  pc_processando_desde :: "int option"

record ProcessOptions =
  days :: int
  limit :: int
  dryRun :: bool

record Detalhe =
  d_voucher :: string
  d_status :: SendStatus
  d_reason :: "string option"
  d_tentativas :: "int option"
  d_error :: "string option"

record ProcessResult =
  total :: nat
  processados :: nat
  sucesso :: nat
  bloqueados :: nat
  erros :: nat
  detalhes :: "Detalhe list"

text \<open>\<open>LEFT JOIN stt_envio_controle sec ON sec.consulta_id = c.id\<close>.\<close>

definition controleDe :: "controles \<Rightarrow> Consulta \<Rightarrow> STTEnvioControle option list" where
  "controleDe tbl c =
     (case filter (\<lambda>r. consultaId r = c_id c) tbl of
        [] \<Rightarrow> [None]
      | rs \<Rightarrow> map Some rs)"

text \<open>The retry policy of the \<open>WHERE\<close> clause; the lock age is the literal 5 minutes.\<close>

definition elegivel :: "int \<Rightarrow> STTEnvioControle option \<Rightarrow> bool" where
  "elegivel now sec =
     (case sec of
        None \<Rightarrow> True
      | Some r \<Rightarrow>
         enviado r = False
         \<and> tentativas r < 3
         \<and> (case proximoRetry r of None \<Rightarrow> True | Some t \<Rightarrow> t \<le> now)
         \<and> (case processandoDesde r of None \<Rightarrow> True | Some t \<Rightarrow> t < now - minutos 5))"

definition dias :: "int \<Rightarrow> int" where
  "dias d = d * 24 * 60 * 60 * 1000"

definition pendente :: "Consulta \<Rightarrow> STTEnvioControle option \<Rightarrow> PendingConsulta" where
  "pendente c sec =
     \<lparr>pc_consulta_id = c_id c, pc_voucher = c_voucher c, pc_updated_at = c_updatedAt c,
      pc_tentativas = (case sec of None \<Rightarrow> 0 | Some r \<Rightarrow> tentativas r),
      pc_ultima_tentativa = (case sec of None \<Rightarrow> None | Some r \<Rightarrow> ultimaTentativa r),
      pc_processando_desde = (case sec of None \<Rightarrow> None | Some r \<Rightarrow> processandoDesde r)\<rparr>"

text \<open>The rows the \<open>FROM\<close> and \<open>WHERE\<close> clauses select.\<close>

definition linhasPendentes :: "int \<Rightarrow> int \<Rightarrow> Fonte \<Rightarrow> controles \<Rightarrow> PendingConsulta list" where
  "linhasPendentes days' now fonte tbl =
     [pendente c sec.
        c \<leftarrow> consultas fonte,
        a \<leftarrow> agendamentos_stt fonte, a = c_voucher c,
        e \<leftarrow> evolucoes fonte, e = c_id c,
        sec \<leftarrow> controleDe tbl c,
        c_status c = ''finalizada'',
        c_updatedAt c \<ge> now - dias days',
        elegivel now sec]"

text \<open>
  The statement writes \<open>days\<close> inside \<open>INTERVAL '...'\<close>; the \<open>catch\<close> rethrows. Its text
  asks for the selected rows under \<open>DISTINCT\<close>, \<open>ORDER BY c."updatedAt" DESC\<close> and
  \<open>LIMIT\<close>; the order among rows of equal key is the server's to choose, and a stable
  sort stands for it here.
\<close>

definition findPendingConsultas ::
  "string \<Rightarrow> int \<Rightarrow> string option \<Rightarrow> Fonte \<Rightarrow> controles \<Rightarrow> ProcessOptions
     \<Rightarrow> Erro + PendingConsulta list" where
  "findPendingConsultas rej now falha fonte tbl options =
     executarRaw True rej falha
       (take (nat (limit options))
          (sort_key (\<lambda>p. - pc_updated_at p)
             (remdups (linhasPendentes (days options) now fonte tbl))))"

text \<open>
  The oracle of one batch: the instants and failures of its two own statements, and the
  oracle of the \<open>sendToSTT\<close> invocation of each record.
\<close>

record Lote =
  agoraCleanup :: int
  falhaCleanup :: "string option"
  agoraFind :: int
  falhaFind :: "string option"
  oraculoDe :: "string \<Rightarrow> Oraculo"

text \<open>The report entry of a candidate in dry-run mode.\<close>

definition detalheDryRun :: "PendingConsulta \<Rightarrow> Detalhe" where
  "detalheDryRun p =
     \<lparr>d_voucher = pc_voucher p, d_status = DRY_RUN, d_reason = None,
      d_tentativas = Some (pc_tentativas p), d_error = None\<rparr>"

text \<open>
  The loop of \<open>processarPendentes\<close>. Its \<open>catch\<close> has no branch here: \<open>sendToSTT\<close> catches
  whatever is thrown inside it, and always returns a result.
\<close>

fun processarCada ::
  "Ambiente \<Rightarrow> Lote \<Rightarrow> bool \<Rightarrow> PendingConsulta list \<Rightarrow> ProcessResult \<times> Mundo
     \<Rightarrow> ProcessResult \<times> Mundo" where
  "processarCada env lote dry [] acc = acc"
| "processarCada env lote dry (p # ps) (result, w) =
     (if dry then
        processarCada env lote dry ps
          (result\<lparr>detalhes := detalhes result @ [detalheDryRun p]\<rparr>, w)
      else
        (let (sendResult, w') =
               sendToSTT env (oraculoDe lote (pc_consulta_id p)) w (pc_consulta_id p) (pc_voucher p);
             r1 = result\<lparr>processados := processados result + 1\<rparr>;
             r2 = (if sr_success sendResult then r1\<lparr>sucesso := sucesso r1 + 1\<rparr>
                   else if sr_status sendResult = BLOCKED \<or> sr_status sendResult = LOCK_FAILED
                   then r1\<lparr>bloqueados := bloqueados r1 + 1\<rparr>
                   else r1\<lparr>erros := erros r1 + 1\<rparr>);
             r3 = r2\<lparr>detalhes := detalhes r2 @
                    [\<lparr>d_voucher = pc_voucher p, d_status = sr_status sendResult,
                      d_reason = sr_reason sendResult,
                      d_tentativas = Some (pc_tentativas p + 1), d_error = None\<rparr>]\<rparr>
         in processarCada env lote dry ps (r3, w')))"

definition processarPendentes ::
  "Ambiente \<Rightarrow> Lote \<Rightarrow> Fonte \<Rightarrow> Mundo \<Rightarrow> ProcessOptions \<Rightarrow> (Erro + ProcessResult) \<times> Mundo" where
  "processarPendentes env lote fonte w options =
     (let w0 = w\<lparr>tabela := snd (cleanupStuckLocks (lockTimeoutMinutes env) (rejeicao env)
                                   (agoraCleanup lote) (falhaCleanup lote) (tabela w))\<rparr> in
      case findPendingConsultas (rejeicao env) (agoraFind lote) (falhaFind lote) fonte
             (tabela w0) options of
        Inl e \<Rightarrow> (Inl e, w0)
      | Inr pendentes \<Rightarrow>
         (let (result, w1) =
                processarCada env lote (dryRun options) pendentes
                  (\<lparr>total = length pendentes, processados = 0, sucesso = 0, bloqueados = 0,
                    erros = 0, detalhes = []\<rparr>, w0)
          in (Inr result, w1)))"

section \<open>\<open>STTController.retryVoucher\<close>\<close>

text \<open>The \<open>UPDATE\<close> that resets the control row of a record before it is reprocessed.\<close>

definition resetarControle :: "int \<Rightarrow> controles \<Rightarrow> string \<Rightarrow> controles" where
  "resetarControle now tbl cid =
     map (\<lambda>r. if consultaId r = cid then
            r\<lparr>enviado := False, processandoDesde := None,
              tentativas := max (tentativas r - 1) 0,
              proximoRetry := None, updatedAt := now\<rparr>
          else r) tbl"

datatype RetryResposta =
  Resposta400
| Resposta404
| RespostaErro Erro
| RespostaSucesso ProcessResult

record OraculoRetry =
  falhaBusca :: "string option"
  agoraReset :: int
  falhaReset :: "string option"
  loteRetry :: Lote

definition retryVoucher ::
  "Ambiente \<Rightarrow> OraculoRetry \<Rightarrow> Fonte \<Rightarrow> Mundo \<Rightarrow> string \<Rightarrow> RetryResposta \<times> Mundo" where
  "retryVoucher env orc fonte w voucher' =
     (if voucher' = [] then (Resposta400, w)
      else
        (case falhaBusca orc of
           Some m \<Rightarrow> (RespostaErro (novoErro m), w)
         | None \<Rightarrow>
            (case find (\<lambda>c. c_voucher c = voucher') (consultas fonte) of
               None \<Rightarrow> (Resposta404, w)
             | Some c \<Rightarrow>
                (case falhaReset orc of
                   Some m \<Rightarrow> (RespostaErro (novoErro m), w)
                 | None \<Rightarrow>
                    (let w0 = w\<lparr>tabela := resetarControle (agoraReset orc) (tabela w) (c_id c)\<rparr>;
                         (r, w1) =
                           processarPendentes env (loteRetry orc) fonte w0
                             \<lparr>days = 90, limit = 1, dryRun = False\<rparr>
                     in case r of
                          Inl e \<Rightarrow> (RespostaErro e, w1)
                        | Inr result \<Rightarrow> (RespostaSucesso result, w1))))))"

section \<open>The attempt counter and the store operations\<close>


text \<open>
  The statements that write the control table, each with the arguments of its call: the
  five of the send pipeline and the batch, and the reset of \<open>retryVoucher\<close>.
\<close>

datatype Operacao =
  OpAcquireLock int string int "string option" string string
| OpReleaseLock int "string option" string
| OpCleanupStuckLocks int string int "string option"
| OpAtualizarResultado int string ConsultaCompleta STTPayload HttpResponse
| OpRegistrarErro int "string option" string Erro
| OpResetarControle int string

fun aplicar :: "Operacao \<Rightarrow> controles \<Rightarrow> controles" where
  "aplicar (OpAcquireLock lockMin rej now falha cid v) tbl =
     snd (acquireLock lockMin rej now falha tbl cid v)"
| "aplicar (OpReleaseLock now falha cid) tbl = releaseLock now falha tbl cid"
| "aplicar (OpCleanupStuckLocks lockMin rej now falha) tbl =
     snd (cleanupStuckLocks lockMin rej now falha tbl)"
| "aplicar (OpAtualizarResultado now cid consulta payload response) tbl =
     (case atualizarResultado now None tbl cid consulta payload response of
        Inl e \<Rightarrow> tbl | Inr tbl' \<Rightarrow> tbl')"
| "aplicar (OpRegistrarErro now falha cid e) tbl = registrarErro now falha tbl cid e"
| "aplicar (OpResetarControle now cid) tbl = resetarControle now tbl cid"


section \<open>Fixtures\<close>

text \<open>A control row held by a worker since instant \<open>t\<close>, one attempt made, nothing sent.\<close>

definition emCurso :: "string \<Rightarrow> string \<Rightarrow> int \<Rightarrow> STTEnvioControle" where
  "emCurso cid v t = novoControle t cid v"

text \<open>A row delivered with status 200 at instant \<open>t\<close>.\<close>

definition entregue :: "string \<Rightarrow> string \<Rightarrow> int \<Rightarrow> STTEnvioControle" where
  "entregue cid v t =
     (novoControle t cid v)\<lparr>enviado := True, dataEnvio := Some t, processandoDesde := None,
        respostaStatusCode := Some 200\<rparr>"

text \<open>A row that failed \<open>n\<close> times, idle, with its next retry at \<open>t\<close>.\<close>

definition falhou :: "string \<Rightarrow> string \<Rightarrow> int \<Rightarrow> int \<Rightarrow> STTEnvioControle" where
  "falhou cid v n t =
     (novoControle 0 cid v)\<lparr>tentativas := n, processandoDesde := None, proximoRetry := Some t\<rparr>"

text \<open>A finalized record with voucher \<open>v\<close>, no clinical note, no scheduling linkage and no
  timing milestone, as the joined query returns it.\<close>

definition linhaSimples :: "string \<Rightarrow> string \<Rightarrow> LinhaConsulta" where
  "linhaSimples cid v =
     \<lparr>l_id = cid, l_voucher = v, l_status = ''finalizada'', l_dataRealizada = None,
      evolucao_status = None, evolucao_tipo_atendimento = None,
      evolucao_queixa_duracao = None, evolucao_tipo_queixa = None, evolucao_historia = None,
      evolucao_antecedente = None, evolucao_antecedente_detalhes = None,
      evolucao_diagnostico = None, evolucao_hipotese = None, evolucao_conduta = None,
      evolucao_atestado = None, evolucao_prescricao = None, evolucao_exames = None,
      evolucao_desfecho = None, stt_codigo = None, stt_origem = None, tempo_inicio = None,
      tempo_fim = None, tempo_acesso = None, paciente_nome = None, paciente_cpf = None,
      profissional_registro = None, profissional_nome = None\<rparr>"

definition consultaSimples :: "string \<Rightarrow> string \<Rightarrow> ConsultaCompleta" where
  "consultaSimples cid v =
     \<lparr>cc_id = cid, cc_voucher = v, cc_status = ''finalizada'', cc_dataRealizada = None,
      cc_evolucao = None, cc_agendamentoStt = None,
      cc_consultaTempo = Some \<lparr>atendimentoIniciadoEm = None, atendimentoFinalizadoEm = None,
                               profissionalAcessouEm = None\<rparr>,
      cc_paciente = None,
      cc_profissional = Some \<lparr>pf_registro = None, pf_user = None\<rparr>\<rparr>"

text \<open>
  An environment with the default lock timeout of 5 minutes, live mode, dates rendered as
  their number of milliseconds, a source store that knows only record R3, no PDF, a
  downstream that never answers (the request times out), and a server that rejects with
  the message \<open>Raw query failed\<close>.
\<close>

definition semResposta :: "STTPayload \<Rightarrow> AxiosOutcome" where
  "semResposta p = AxiosErro ''timeout of 30000ms exceeded'' None"

definition soR3 :: "string \<Rightarrow> LinhaConsulta option" where
  "soR3 cid = (if cid = ''R3'' then Some (linhaSimples ''R3'' ''V-3'') else None)"

definition semCids :: "string \<Rightarrow> Cid list" where
  "semCids cid = []"

definition semPdf :: "string \<Rightarrow> string" where
  "semPdf v = []"

definition ambiente0 :: Ambiente where
  "ambiente0 =
     \<lparr>lockTimeoutMinutes = 5, modoTeste = False, toLocaleString = numero, formatTz = numero,
      queryConsulta = soR3, queryCids = semCids, gerarPdfEvolucao = semPdf,
      axiosPost = semResposta, jsonSimulated = numero,
      rejeicao = ''Raw query failed''\<rparr>"

text \<open>An oracle whose clock stands at \<open>t\<close> and where no statement fails.\<close>

definition sempre :: "int \<Rightarrow> Ponto \<Rightarrow> int" where
  "sempre t p = t"

definition nenhuma :: "Ponto \<Rightarrow> string option" where
  "nenhuma p = None"

definition oraculo0 :: "int \<Rightarrow> Oraculo" where
  "oraculo0 t = \<lparr>agoraEm = sempre t, falhaEm = nenhuma\<rparr>"

definition oraculosEm :: "int \<Rightarrow> string \<Rightarrow> Oraculo" where
  "oraculosEm t cid = oraculo0 t"

definition lote0 :: "int \<Rightarrow> Lote" where
  "lote0 t = \<lparr>agoraCleanup = t, falhaCleanup = None, agoraFind = t, falhaFind = None,
              oraculoDe = oraculosEm t\<rparr>"

text \<open>A source store with the finalized records R3 and R4, both with a clinical note and a
  scheduling linkage, last updated at instant 900000.\<close>

definition fonte0 :: Fonte where
  "fonte0 =
     \<lparr>consultas = [\<lparr>c_id = ''R3'', c_voucher = ''V-3'', c_status = ''finalizada'',
                     c_updatedAt = 900000\<rparr>,
                    \<lparr>c_id = ''R4'', c_voucher = ''V-4'', c_status = ''finalizada'',
                     c_updatedAt = 900000\<rparr>],
      agendamentos_stt = [''V-3'', ''V-4''],
      evolucoes = [''R3'', ''R4'']\<rparr>"

section \<open>Evaluation on the fixtures\<close>

lemmas fixture_defs = ambiente0_def oraculo0_def sempre_def nenhuma_def emCurso_def
  novoControle_def entregue_def falhou_def lote0_def oraculosEm_def
  fonte0_def soR3_def semCids_def semPdf_def semResposta_def linhaSimples_def
  consultaSimples_def

section \<open>Statements the server rejects\<close>

text \<open>
  A statement with a parameter inside a literal never yields its result, so the lock
  call never succeeds, the sweep never clears a row, and the candidate query always
  throws.
\<close>

lemma executarRaw_emLiteral:
  "executarRaw True rej falha resultado =
     Inl (novoErro (case falha of None \<Rightarrow> rej | Some m \<Rightarrow> m))"
  by (simp add: executarRaw_def split: option.splits)

lemma acquireLock_rejected:
  "acquireLock lockMin rej now falha tbl cid v = (False, tbl)"
  by (simp add: acquireLock_def executarRaw_emLiteral)

lemma cleanupStuckLocks_rejected:
  "cleanupStuckLocks lockMin rej now falha tbl = (0, tbl)"
  by (simp add: cleanupStuckLocks_def executarRaw_emLiteral)

lemma findPendingConsultas_rejected:
  "findPendingConsultas rej now falha fonte tbl options =
     Inl (novoErro (case falha of None \<Rightarrow> rej | Some m \<Rightarrow> m))"
  by (simp add: findPendingConsultas_def executarRaw_emLiteral)

text \<open>No raw row has a key \<open>dataEnvio\<close>, so the reason of a delivered record is one fixed
  text.\<close>

lemma propriedade_dataEnvio: "propriedade r ''dataEnvio'' = None"
  by (simp add: propriedade_def propriedadesDeData_def)

lemma motivoEnviado_text:
  "motivoEnviado toLocale r =
     (CHR ''J'' # CHR 0xE1 # '' enviado com sucesso em '') @ ''data desconhecida''"
  by (simp add: motivoEnviado_def propriedade_dataEnvio)

text \<open>
  The check therefore has three outcomes only: the first query fails, the record has a
  row delivered with status 200, or the second query is rejected. It never allows, and
  \<open>sendToSTT\<close> has two paths: blocked, and the \<open>catch\<close>.
\<close>

lemma canSendToSTT_cases:
  "canSendToSTT toLocale lockMin rej now falha tbl cid =
     (case falha of
        Some m \<Rightarrow> Inl (novoErro m)
      | None \<Rightarrow>
         (case find (jaEnviado cid) tbl of
            Some r \<Rightarrow> Inr (False, Some (motivoEnviado toLocale r))
          | None \<Rightarrow> Inl (novoErro rej)))"
  by (simp add: canSendToSTT_def executarRaw_def split: option.splits)

lemma canSendToSTT_never_allows:
  "canSendToSTT toLocale lockMin rej now falha tbl cid \<noteq> Inr (True, reason)"
  by (simp add: canSendToSTT_cases split: option.splits)

lemma corpoSendToSTT_cases:
  "corpoSendToSTT env orc w cid v =
     (case canSendToSTT (toLocaleString env) (lockTimeoutMinutes env) (rejeicao env)
             (agoraEm orc PCheck) (falhaEm orc PCheck) (tabela w) cid of
        Inl e \<Rightarrow> (Inl e, w)
      | Inr p \<Rightarrow> (Inr (semSucesso BLOCKED (snd p)), w))"
proof (cases "canSendToSTT (toLocaleString env) (lockTimeoutMinutes env) (rejeicao env)
             (agoraEm orc PCheck) (falhaEm orc PCheck) (tabela w) cid")
  case (Inl e)
  then show ?thesis by (simp add: corpoSendToSTT_def)
next
  case (Inr p)
  obtain b reason where p: "p = (b, reason)" by (cases p)
  with Inr canSendToSTT_never_allows [of "toLocaleString env" "lockTimeoutMinutes env"
      "rejeicao env" "agoraEm orc PCheck" "falhaEm orc PCheck" "tabela w" cid reason]
  have "\<not> b" by auto
  with Inr p show ?thesis by (simp add: corpoSendToSTT_def)
qed

lemma sendToSTT_cases:
  "sendToSTT env orc w cid v =
     (case canSendToSTT (toLocaleString env) (lockTimeoutMinutes env) (rejeicao env)
             (agoraEm orc PCheck) (falhaEm orc PCheck) (tabela w) cid of
        Inl e \<Rightarrow>
          (semSucesso ERROR (Some (message e)),
           registrar (EvRelease cid)
             (w\<lparr>tabela := releaseLock (agoraEm orc PRelease) (falhaEm orc PRelease)
                    (registrarErro (agoraEm orc PErro) (falhaEm orc PErro) (tabela w) cid e)
                    cid\<rparr>))
      | Inr p \<Rightarrow>
          (semSucesso BLOCKED (snd p),
           registrar (EvRelease cid)
             (w\<lparr>tabela := releaseLock (agoraEm orc PRelease) (falhaEm orc PRelease)
                              (tabela w) cid\<rparr>)))"
  by (simp add: sendToSTT_def corpoSendToSTT_cases registrar_def split: sum.splits)

lemma canSendToSTT_disallows_iff:
  "canSendToSTT toLocale lockMin rej now falha tbl cid = Inr (False, reason) \<longleftrightarrow>
     falha = None \<and> (\<exists>r \<in> set tbl. jaEnviado cid r) \<and>
     reason = Some ((CHR ''J'' # CHR 0xE1 # '' enviado com sucesso em '') @ ''data desconhecida'')"
proof (cases falha)
  case (Some m)
  then show ?thesis by (simp add: canSendToSTT_cases)
next
  case None
  show ?thesis
  proof (cases "find (jaEnviado cid) tbl")
    case n: None
    then have "\<not> (\<exists>r \<in> set tbl. jaEnviado cid r)"
      by (simp add: find_None_iff)
    with None n show ?thesis by (simp add: canSendToSTT_cases)
  next
    case (Some r)
    then have "\<exists>r \<in> set tbl. jaEnviado cid r"
      by (metis find_None_iff option.distinct(1))
    with None Some show ?thesis
      by (auto simp: canSendToSTT_cases motivoEnviado_text)
  qed
qed

section \<open>Rows of the control table\<close>


lemma ids_map:
  assumes "\<And>r. consultaId (g r) = consultaId r"
  shows "map consultaId (map g tbl) = map consultaId tbl"
  using assms by (induction tbl) simp_all

lemma registrarErro_ids:
  "map consultaId (registrarErro now falha tbl cid e) = map consultaId tbl"
  by (cases falha) (simp_all add: registrarErro_def ids_map)

lemma releaseLock_ids:
  "map consultaId (releaseLock now falha tbl cid) = map consultaId tbl"
  by (cases falha) (simp_all add: releaseLock_def ids_map)

lemma atualizarResultado_ids:
  "atualizarResultado now falha tbl cid consulta payload response = Inr tbl'
     \<Longrightarrow> map consultaId tbl' = map consultaId tbl"
  by (cases falha) (auto simp: atualizarResultado_def ids_map Let_def)

lemma resetarControle_ids:
  "map consultaId (resetarControle now tbl cid) = map consultaId tbl"
  by (simp add: resetarControle_def ids_map)



lemma aplicar_ids: "map consultaId (aplicar opr tbl) = map consultaId tbl"
proof (cases opr)
  case (OpAcquireLock lockMin rej now falha cid v)
  then show ?thesis by (simp add: acquireLock_rejected)
next
  case (OpReleaseLock now falha cid)
  then show ?thesis by (simp add: releaseLock_ids)
next
  case (OpCleanupStuckLocks lockMin rej now falha)
  then show ?thesis by (simp add: cleanupStuckLocks_rejected)
next
  case (OpAtualizarResultado now cid consulta payload response)
  then show ?thesis
    by (auto simp: atualizarResultado_ids split: sum.splits)
next
  case (OpRegistrarErro now falha cid e)
  then show ?thesis by (simp add: registrarErro_ids)
next
  case (OpResetarControle now cid)
  then show ?thesis by (simp add: resetarControle_ids)
qed

section \<open>Lock acquisition\<close>

text \<open>
  C1. For a record whose control row is not delivered with status 200 and whose
  \<open>processandoDesde\<close> is younger than the lock timeout, a call of \<open>acquireLock\<close> affects
  no row and returns false. It does so because the statement is rejected, on this call
  as on every other, and the \<open>catch\<close> returns false.
\<close>

theorem acquireLock_live_lock_refused:
  assumes "r \<in> set tbl" "consultaId r = cid"
    and "\<not> (enviado r \<and> respostaStatusCode r = Some 200)"
    and "processandoDesde r = Some t" "now - minutos lockMin < t"
  shows "acquireLock lockMin rej now falha tbl cid v = (False, tbl)"
  by (simp add: acquireLock_def executarRaw_emLiteral)

text \<open>The row of R2 was locked at instant 1000000 and the call comes at that instant.\<close>

theorem acquireLock_live_lock_refused_witness:
  "processandoDesde (emCurso ''R2'' ''V-2'' 1000000) = Some 1000000
   \<and> enviado (emCurso ''R2'' ''V-2'' 1000000) = False
   \<and> acquireLock 5 ''Raw query failed'' 1000000 None [emCurso ''R2'' ''V-2'' 1000000]
        ''R2'' ''V-2'' = (False, [emCurso ''R2'' ''V-2'' 1000000])"
  using acquireLock_live_lock_refused [of "emCurso ''R2'' ''V-2'' 1000000"
      "[emCurso ''R2'' ''V-2'' 1000000]" "''R2''" 1000000 1000000 5 "''Raw query failed''"
      None "''V-2''"]
  by (simp add: emCurso_def novoControle_def minutos_def)

section \<open>The blocked path of \<open>sendToSTT\<close>\<close>

text \<open>
  C2, as amended. When the check disallows, which it does only for a record that has a
  row delivered with status 200, \<open>sendToSTT\<close> returns \<open>BLOCKED\<close> and never calls
  \<open>acquireLock\<close>; its \<open>finally\<close> block then calls \<open>releaseLock\<close> once, which sets
  \<open>processandoDesde\<close> to null and rewrites \<open>updatedAt\<close> on the rows of the record (unless
  that statement fails) and leaves every other field and every other row as it was.
\<close>

theorem sendToSTT_blocked_frame:
  assumes "canSendToSTT (toLocaleString env) (lockTimeoutMinutes env) (rejeicao env)
             (agoraEm orc PCheck) (falhaEm orc PCheck) (tabela w) cid = Inr (False, reason)"
  shows "fst (sendToSTT env orc w cid v) = semSucesso BLOCKED reason
       \<and> eventos (snd (sendToSTT env orc w cid v)) = eventos w @ [EvRelease cid]
       \<and> tabela (snd (sendToSTT env orc w cid v)) =
           (case falhaEm orc PRelease of
              Some m \<Rightarrow> tabela w
            | None \<Rightarrow>
               map (\<lambda>r. if consultaId r = cid
                         then r\<lparr>processandoDesde := None, updatedAt := agoraEm orc PRelease\<rparr>
                         else r) (tabela w))
       \<and> (\<exists>r \<in> set (tabela w).
             consultaId r = cid \<and> enviado r \<and> respostaStatusCode r = Some 200)"
proof -
  from assms have "\<exists>r \<in> set (tabela w). jaEnviado cid r"
    by (simp add: canSendToSTT_disallows_iff)
  then have "\<exists>r \<in> set (tabela w).
      consultaId r = cid \<and> enviado r \<and> respostaStatusCode r = Some 200"
    by (simp add: jaEnviado_def)
  with assms show ?thesis
    by (simp add: sendToSTT_cases registrar_def releaseLock_def)
qed

text \<open>
  The claim as first stated, that the row and its \<open>processandoDesde\<close> are left unchanged,
  fails: the delivered row of R1 carries a \<open>processandoDesde\<close> of 900 and was last updated
  at 500; a blocked invocation at instant 1000 clears the one and rewrites the other.
\<close>

theorem sendToSTT_blocked_rewrites_row:
  "map processandoDesde [(entregue ''R1'' ''V-100'' 500)\<lparr>processandoDesde := Some 900\<rparr>] =
     [Some 900]
   \<and> fst (sendToSTT ambiente0 (oraculo0 1000)
        \<lparr>tabela = [(entregue ''R1'' ''V-100'' 500)\<lparr>processandoDesde := Some 900\<rparr>],
         eventos = []\<rparr> ''R1'' ''V-100'') =
       semSucesso BLOCKED
         (Some ((CHR ''J'' # CHR 0xE1 # '' enviado com sucesso em '') @ ''data desconhecida''))
   \<and> map processandoDesde (tabela (snd (sendToSTT ambiente0 (oraculo0 1000)
        \<lparr>tabela = [(entregue ''R1'' ''V-100'' 500)\<lparr>processandoDesde := Some 900\<rparr>],
         eventos = []\<rparr> ''R1'' ''V-100''))) = [None]
   \<and> map updatedAt [(entregue ''R1'' ''V-100'' 500)\<lparr>processandoDesde := Some 900\<rparr>] = [500]
   \<and> map updatedAt (tabela (snd (sendToSTT ambiente0 (oraculo0 1000)
        \<lparr>tabela = [(entregue ''R1'' ''V-100'' 500)\<lparr>processandoDesde := Some 900\<rparr>],
         eventos = []\<rparr> ''R1'' ''V-100''))) = [1000]"
  by (simp add: sendToSTT_cases canSendToSTT_cases motivoEnviado_text jaEnviado_def
        releaseLock_def registrar_def fixture_defs)

text \<open>The delivered row of R1 with no lock on it: only \<open>updatedAt\<close> changes.\<close>

theorem sendToSTT_blocked_frame_witness:
  "canSendToSTT numero 5 ''Raw query failed'' 1000 None [entregue ''R1'' ''V-100'' 500] ''R1'' =
     Inr (False,
       Some ((CHR ''J'' # CHR 0xE1 # '' enviado com sucesso em '') @ ''data desconhecida''))
   \<and> sendToSTT ambiente0 (oraculo0 1000)
        \<lparr>tabela = [entregue ''R1'' ''V-100'' 500], eventos = []\<rparr> ''R1'' ''V-100'' =
       (semSucesso BLOCKED
          (Some ((CHR ''J'' # CHR 0xE1 # '' enviado com sucesso em '') @ ''data desconhecida'')),
        \<lparr>tabela = [(entregue ''R1'' ''V-100'' 500)\<lparr>updatedAt := 1000\<rparr>],
         eventos = [EvRelease ''R1'']\<rparr>)"
proof -
  have c: "canSendToSTT (toLocaleString ambiente0) (lockTimeoutMinutes ambiente0)
        (rejeicao ambiente0) (agoraEm (oraculo0 1000) PCheck) (falhaEm (oraculo0 1000) PCheck)
        (tabela \<lparr>tabela = [entregue ''R1'' ''V-100'' 500], eventos = []\<rparr>) ''R1'' =
      Inr (False,
        Some ((CHR ''J'' # CHR 0xE1 # '' enviado com sucesso em '') @ ''data desconhecida''))"
    by (simp add: canSendToSTT_cases motivoEnviado_text jaEnviado_def fixture_defs)
  from sendToSTT_blocked_frame [OF c, of "''V-100''"] c show ?thesis
    by (simp add: prod_eq_iff fixture_defs)
qed

section \<open>Dry run\<close>

text \<open>Whatever its options, a batch changes neither the table nor the trace, and ends
  with the error of the candidate query.\<close>

lemma processarPendentes_rejected:
  "processarPendentes env lote fonte w options =
     (Inl (novoErro (case falhaFind lote of None \<Rightarrow> rejeicao env | Some m \<Rightarrow> m)), w)"
  by (simp add: processarPendentes_def cleanupStuckLocks_rejected findPendingConsultas_rejected)

text \<open>
  C3. The claim: a dry run leaves every control row unchanged, makes no outbound call
  and no lock call, and its report tags every candidate \<open>DRY_RUN\<close>. The code leaves table
  and trace unchanged, but there is no report: the candidate query writes \<open>days\<close> inside
  a quoted literal and is rejected, so \<open>processarPendentes\<close> ends with that error. Here
  record R4 failed once and is due, and would be a candidate.
\<close>

theorem processarPendentes_dryRun_no_report:
  "processarPendentes ambiente0 (lote0 1000000) fonte0
     \<lparr>tabela = [falhou ''R4'' ''V-4'' 1 0], eventos = []\<rparr>
     \<lparr>days = 7, limit = 50, dryRun = True\<rparr> =
   (Inl (novoErro ''Raw query failed''),
    \<lparr>tabela = [falhou ''R4'' ''V-4'' 1 0], eventos = []\<rparr>)"
  by (simp add: processarPendentes_rejected fixture_defs)

section \<open>The release step\<close>

text \<open>An invocation adds one event to the trace: the release of the \<open>finally\<close> block.\<close>

lemma sendToSTT_eventos:
  "eventos (snd (sendToSTT env orc w cid v)) = eventos w @ [EvRelease cid]"
  by (simp add: sendToSTT_cases registrar_def split: sum.splits)



section \<open>The delivered check\<close>

lemma canSendToSTT_delivered:
  assumes "r \<in> set tbl" "enviado r" "respostaStatusCode r = Some 200"
  shows "canSendToSTT toLocale lockMin rej now None tbl (consultaId r) =
           Inr (False, Some ((CHR ''J'' # CHR 0xE1 # '' enviado com sucesso em '') @
                             ''data desconhecida''))"
proof -
  from assms have "\<exists>x \<in> set tbl. jaEnviado (consultaId r) x"
    by (auto simp: jaEnviado_def)
  then show ?thesis
    by (simp add: canSendToSTT_disallows_iff)
qed

text \<open>
  C5. The claim: for a record whose row is delivered with status 200, the candidate
  query never returns it and \<open>canSendToSTT\<close> disallows with a reason that carries the
  delivery timestamp. The code disallows, but its reason never carries the timestamp:
  the row of the raw query is keyed \<open>data_envio\<close>, \<open>controle[0].dataEnvio\<close> is undefined,
  and the reason ends in \<open>data desconhecida\<close>, here for the row of R1 delivered at
  instant 500.
\<close>

theorem canSendToSTT_reason_drops_delivery_date:
  "enviado (entregue ''R1'' ''V-100'' 500)
   \<and> respostaStatusCode (entregue ''R1'' ''V-100'' 500) = Some 200
   \<and> dataEnvio (entregue ''R1'' ''V-100'' 500) = Some 500
   \<and> canSendToSTT numero 5 ''Raw query failed'' 1000 None [entregue ''R1'' ''V-100'' 500] ''R1'' =
       Inr (False, Some ((CHR ''J'' # CHR 0xE1 # '' enviado com sucesso em '') @
                         ''data desconhecida''))"
  by (simp add: canSendToSTT_cases motivoEnviado_text jaEnviado_def fixture_defs)

section \<open>Candidates\<close>

text \<open>The \<open>UNIQUE\<close> constraint on \<open>consulta_id\<close>: a record has at most one control row.\<close>

lemma unico:
  assumes "distinct (map consultaId tbl)" "r \<in> set tbl" "r' \<in> set tbl"
    and "consultaId r' = consultaId r"
  shows "r' = r"
proof -
  from assms(1) have "inj_on consultaId (set tbl)"
    by (simp add: distinct_map)
  with assms(2-4) show ?thesis
    by (simp add: inj_on_def)
qed

lemma controleDe_unico:
  assumes "distinct (map consultaId tbl)" "r \<in> set tbl" "c_id c = consultaId r"
  shows "controleDe tbl c = [Some r]"
proof -
  have "filter (\<lambda>x. consultaId x = consultaId r) tbl = [r]"
    using assms(1,2)
  proof (induction tbl)
    case Nil
    then show ?case by simp
  next
    case (Cons a tbl)
    show ?case
    proof (cases "a = r")
      case True
      with Cons.prems have "consultaId r \<notin> consultaId ` set tbl"
        by simp
      then have "\<forall>x \<in> set tbl. consultaId x \<noteq> consultaId r"
        by (metis imageI)
      then have "filter (\<lambda>x. consultaId x = consultaId r) tbl = []"
        by (simp add: filter_empty_conv)
      with True show ?thesis by simp
    next
      case False
      with Cons.prems have "r \<in> set tbl" "consultaId a \<noteq> consultaId r"
        by auto
      with Cons show ?thesis by simp
    qed
  qed
  then show ?thesis
    by (simp add: controleDe_def assms(3))
qed

lemma pendente_elegivel:
  assumes "p \<in> set (linhasPendentes d now fonte tbl)"
  shows "\<exists>c sec. p = pendente c sec \<and> sec \<in> set (controleDe tbl c) \<and> elegivel now sec"
  using assms by (auto simp: linhasPendentes_def)

text \<open>The \<open>WHERE\<close> clause does cap the retries: among the rows it selects there is none
  of a record that is undelivered with three attempts.\<close>

lemma where_clause_caps_retries:
  assumes "distinct (map consultaId tbl)" "r \<in> set tbl"
    and "enviado r = False" "tentativas r = 3"
  shows "consultaId r \<notin> pc_consulta_id ` set (linhasPendentes d now fonte tbl)"
proof
  assume "consultaId r \<in> pc_consulta_id ` set (linhasPendentes d now fonte tbl)"
  then obtain p where p: "p \<in> set (linhasPendentes d now fonte tbl)"
      "pc_consulta_id p = consultaId r"
    by auto
  then obtain c sec where c: "p = pendente c sec" "sec \<in> set (controleDe tbl c)"
      "elegivel now sec"
    using pendente_elegivel by blast
  from c(1) p(2) have "c_id c = consultaId r"
    by (simp add: pendente_def)
  with assms(1,2) have "controleDe tbl c = [Some r]"
    by (rule controleDe_unico)
  with c(2) have "sec = Some r" by simp
  with c(3) assms(4) show False by (simp add: elegivel_def)
qed

text \<open>
  C6. The claim: a record whose row has \<open>enviado = false\<close> and \<open>tentativas = 3\<close> is
  excluded from the result of \<open>findPendingConsultas\<close>. The code produces no result to
  exclude it from: the statement is rejected and \<open>findPendingConsultas\<close> throws, here
  with R3 at three attempts and R4 at two.
\<close>

theorem findPendingConsultas_throws_at_cap:
  "tentativas (falhou ''R3'' ''V-3'' 3 0) = 3
   \<and> enviado (falhou ''R3'' ''V-3'' 3 0) = False
   \<and> findPendingConsultas ''Raw query failed'' 1000000 None fonte0
        [falhou ''R3'' ''V-3'' 3 0, falhou ''R4'' ''V-4'' 2 0]
        \<lparr>days = 7, limit = 50, dryRun = False\<rparr> = Inl (novoErro ''Raw query failed'')"
  by (simp add: findPendingConsultas_rejected fixture_defs)

section \<open>Recording an error\<close>

text \<open>When the body throws: the first query of the check failed, or the record has no
  delivered row and the second query was rejected.\<close>

lemma corpoSendToSTT_throws_iff:
  "fst (corpoSendToSTT env orc w cid v) = Inl e \<longleftrightarrow>
     (case falhaEm orc PCheck of
        Some m \<Rightarrow> e = novoErro m
      | None \<Rightarrow> e = novoErro (rejeicao env) \<and> \<not> (\<exists>r \<in> set (tabela w). jaEnviado cid r))"
proof (cases "falhaEm orc PCheck")
  case (Some m)
  then show ?thesis
    by (auto simp: corpoSendToSTT_cases canSendToSTT_cases)
next
  case None
  show ?thesis
  proof (cases "find (jaEnviado cid) (tabela w)")
    case n: None
    then have "\<not> (\<exists>r \<in> set (tabela w). jaEnviado cid r)"
      by (simp add: find_None_iff)
    with None n show ?thesis
      by (auto simp: corpoSendToSTT_cases canSendToSTT_cases)
  next
    case (Some r)
    then have "\<exists>r \<in> set (tabela w). jaEnviado cid r"
      by (metis find_None_iff option.distinct(1))
    with None Some show ?thesis
      by (simp add: corpoSendToSTT_cases canSendToSTT_cases)
  qed
qed



section \<open>The attempt counter\<close>







section \<open>The payload builders\<close>

text \<open>
  C7. For a record with no clinical note \<open>buildPayload\<close> fills the defaults: the status
  literal \<open>Efetivo\<close>, the attendance type \<open>OMV\<close>, the three issued-document flags false,
  the free-text fields empty (and with them no CID, the personal-history answer \<open>Nao\<close>
  with a-tilde, and the fixed priority). The attendance end is the current instant in the
  fixed timezone when no completion instant is recorded; the attendance start is the
  formal start, else the instant the professional joined, else null.
\<close>

theorem buildPayload_defaults:
  assumes "cc_evolucao c = None"
  shows "pl_status (buildPayload env now c) = ''Efetivo''
       \<and> pl_tipoAtendimentoMedico (buildPayload env now c) = ''OMV''
       \<and> pl_atestado (buildPayload env now c) = False
       \<and> pl_prescricao (buildPayload env now c) = False
       \<and> pl_solicitaoExames (buildPayload env now c) = False
       \<and> pl_queixaDuracao (buildPayload env now c) = []
       \<and> pl_tipoQueixa (buildPayload env now c) = []
       \<and> pl_historiaPregressaMolestiaAtual (buildPayload env now c) = []
       \<and> pl_detalharDiagnostico (buildPayload env now c) = []
       \<and> pl_hipoteseDiagnostica (buildPayload env now c) = []
       \<and> pl_conduta (buildPayload env now c) = []
       \<and> pl_desfecho (buildPayload env now c) = []
       \<and> pl_cids (buildPayload env now c) = []
       \<and> pl_antecedentesPessoais (buildPayload env now c) = [CHR ''N'', CHR 0xE3, CHR ''o'']
       \<and> pl_prioridade (buildPayload env now c) = ''Normal''
       \<and> (doTempo c atendimentoFinalizadoEm = None
            \<longrightarrow> pl_dataFimAtendimento (buildPayload env now c) = formatTz env now)
       \<and> (\<forall>t. doTempo c atendimentoIniciadoEm = Some t
            \<longrightarrow> pl_dataInicioAtendimento (buildPayload env now c) = Some (formatTz env t))
       \<and> (\<forall>t. doTempo c atendimentoIniciadoEm = None \<and> doTempo c profissionalAcessouEm = Some t
            \<longrightarrow> pl_dataInicioAtendimento (buildPayload env now c) = Some (formatTz env t))
       \<and> (doTempo c atendimentoIniciadoEm = None \<and> doTempo c profissionalAcessouEm = None
            \<longrightarrow> pl_dataInicioAtendimento (buildPayload env now c) = None)"
  using assms
  by (simp add: buildPayload_def daEvolucao_def ou_def ouFalse_def antecedentes_def
        dataFim_def dataInicio_def)

theorem buildPayload_defaults_witness:
  "cc_evolucao (consultaSimples ''R3'' ''V-3'') = None
   \<and> pl_status (buildPayload ambiente0 1000 (consultaSimples ''R3'' ''V-3'')) = ''Efetivo''
   \<and> pl_tipoAtendimentoMedico (buildPayload ambiente0 1000 (consultaSimples ''R3'' ''V-3'')) = ''OMV''
   \<and> pl_queixaDuracao (buildPayload ambiente0 1000 (consultaSimples ''R3'' ''V-3'')) = []
   \<and> pl_atestado (buildPayload ambiente0 1000 (consultaSimples ''R3'' ''V-3'')) = False
   \<and> pl_dataFimAtendimento (buildPayload ambiente0 1000 (consultaSimples ''R3'' ''V-3'')) = ''1000''
   \<and> pl_dataInicioAtendimento (buildPayload ambiente0 1000 (consultaSimples ''R3'' ''V-3'')) = None"
  using buildPayload_defaults [of "consultaSimples ''R3'' ''V-3''" ambiente0 1000]
  by (simp add: consultaSimples_def doTempo_def ambiente0_def numero_def decimal.simps)

text \<open>The two builders differ in one field only.\<close>

lemma map_Cid_eta:
  "map (\<lambda>cid :: Cid. \<lparr>codigo = codigo cid, descricao = descricao cid, principal = principal cid\<rparr>) cs = cs"
  by (induction cs) simp_all

lemma buildPayloadFromPrisma_eq:
  "buildPayloadFromPrisma env now c = (buildPayload env now c)\<lparr>pl_casoId := codigoInternoDe c\<rparr>"
  by (simp add: buildPayloadFromPrisma_def buildPayload_def map_Cid_eta split: option.splits)

text \<open>
  C10. The claim: \<open>buildPayload\<close> and \<open>buildPayloadFromPrisma\<close> produce the same payload,
  the case code included when the record has no scheduling linkage. They do not: for
  such a record the send pipeline transmits the empty string as \<open>casoId\<close>, and the preview
  leaves \<open>casoId\<close> undefined (the fallback to the empty string is missing there).
\<close>

theorem buildPayload_casoId_differs:
  "pl_casoId (buildPayload ambiente0 1000 (consultaSimples ''R3'' ''V-3'')) = Some []
   \<and> pl_casoId (buildPayloadFromPrisma ambiente0 1000 (consultaSimples ''R3'' ''V-3'')) = None"
  by (simp add: buildPayload_def buildPayloadFromPrisma_def codigoInternoDe_def
        consultaSimples_def ou_def)

end
